theory Spec2Isabelle
  imports Main "HOL-Library.Word"
begin

section \<open>The storage facade of api/extensions/ext_storage.py\<close>

subsection \<open>Python values, exceptions and generators\<close>

type_synonym bytes = "8 word list"

text \<open>
  Exceptions are values. \<open>except Exception\<close> catches every exception that derives from
  \<open>Exception\<close>; a \<open>BaseException\<close> outside that hierarchy (KeyboardInterrupt, SystemExit)
  passes through such a handler untouched. \<open>AttributeError\<close> is what an attribute lookup
  on \<open>None\<close> raises; \<open>TypeError\<close> is what calling \<open>None\<close>, or iterating an object that
  is not iterable, raises; \<open>OSError\<close> is what \<open>print\<close> raises when standard output cannot
  be written.
\<close>

datatype exn =
    AttributeError string
  | TypeError string
  | DriverError string
  | OSError string
  | NonException string

fun is_Exception :: "exn \<Rightarrow> bool" where
  "is_Exception (AttributeError m) = True"
| "is_Exception (TypeError m) = True"
| "is_Exception (DriverError m) = True"
| "is_Exception (OSError m) = True"
| "is_Exception (NonException m) = False"

text \<open>
  A generator object is the sequence of what its successive \<open>next\<close> calls will do:
  yield a chunk (\<open>Inr\<close>) or raise (\<open>Inl\<close>). Nothing of it has run when it is created.
\<close>

type_synonym generator = "(exn + bytes) list"

datatype pyval =
    PyNone
  | PyBool bool
  | PyInt int
  | PyBytes bytes
  | PyGenerator generator

text \<open>
  \<open>for chunk in g\<close>, collecting the objects yielded: the loop a consumer of a stream runs.
  It ends when the generator is exhausted, and the first step that raises ends it with that
  exception. Each chunk yielded is a bytes object.
\<close>

fun drain :: "generator \<Rightarrow> exn + pyval list" where
  "drain [] = Inr []"
| "drain (Inr chunk # rest) =
     (case drain rest of Inl e \<Rightarrow> Inl e | Inr cs \<Rightarrow> Inr (PyBytes chunk # cs))"
| "drain (Inl e # rest) = Inl e"

text \<open>
  The same loop over any value: a generator is drained, a bytes object yields its bytes as
  integers, and \<open>None\<close>, a boolean or an integer is not iterable.
\<close>

fun iterate :: "pyval \<Rightarrow> exn + pyval list" where
  "iterate (PyGenerator g) = drain g"
| "iterate (PyBytes bs) = Inr (map (\<lambda>b. PyInt (uint b)) bs)"
| "iterate PyNone = Inl (TypeError ''NoneType object is not iterable'')"
| "iterate (PyBool b) = Inl (TypeError ''bool object is not iterable'')"
| "iterate (PyInt i) = Inl (TypeError ''int object is not iterable'')"

subsection \<open>The driver registry\<close>

text \<open>The driver classes the lazy imports of \<open>get_storage_factory\<close> name.\<close>

datatype driver_class =
    AwsS3Storage
  | AzureBlobStorage
  | AliyunOssStorage
  | GoogleCloudStorage
  | TencentCosStorage
  | OracleOCIStorage
  | HuaweiObsStorage
  | BaiduObsStorage
  | VolcengineTosStorage
  | SupabaseStorage
  | LocalFsStorage

text \<open>
  The enumeration \<open>StorageType\<close> (extensions/storage/storage_type.py) is not among the
  sources: its members are taken as a parameter, one string per member that
  \<open>get_storage_factory\<close> mentions. A member compares with the configured string by value.
\<close>

record StorageType =
  S3 :: string
  AZURE_BLOB :: string
  ALIYUN_OSS :: string
  GOOGLE_STORAGE :: string
  TENCENT_COS :: string
  OCI_STORAGE :: string
  HUAWEI_OBS :: string
  BAIDU_OBS :: string
  VOLCENGINE_TOS :: string
  SUPBASE :: string
  LOCAL :: string

definition member_values :: "StorageType \<Rightarrow> string list" where
  "member_values st =
     [S3 st, AZURE_BLOB st, ALIYUN_OSS st, GOOGLE_STORAGE st, TENCENT_COS st, OCI_STORAGE st,
      HUAWEI_OBS st, BAIDU_OBS st, VOLCENGINE_TOS st, SUPBASE st, LOCAL st]"

text \<open>
  The \<open>match\<close> statement: value patterns, the wildcard and or-patterns; the cases are tried
  in order and the first that matches is taken. When no case matches, the statement falls
  through and the function returns \<open>None\<close>.
\<close>

datatype pattern = PValue string | PWildcard | POr pattern pattern

fun matches :: "string \<Rightarrow> pattern \<Rightarrow> bool" where
  "matches subject (PValue v) = (subject = v)"
| "matches subject PWildcard = True"
| "matches subject (POr p q) = (matches subject p \<or> matches subject q)"

fun match_stmt :: "string \<Rightarrow> (pattern \<times> 'a) list \<Rightarrow> 'a option" where
  "match_stmt subject [] = None"
| "match_stmt subject ((p, r) # cases) =
     (if matches subject p then Some r else match_stmt subject cases)"

definition get_storage_factory :: "StorageType \<Rightarrow> string \<Rightarrow> driver_class option" where
  "get_storage_factory st storage_type =
     match_stmt storage_type
       [(PValue (S3 st), AwsS3Storage),
        (PValue (AZURE_BLOB st), AzureBlobStorage),
        (PValue (ALIYUN_OSS st), AliyunOssStorage),
        (PValue (GOOGLE_STORAGE st), GoogleCloudStorage),
        (PValue (TENCENT_COS st), TencentCosStorage),
        (PValue (OCI_STORAGE st), OracleOCIStorage),
        (PValue (HUAWEI_OBS st), HuaweiObsStorage),
        (PValue (BAIDU_OBS st), BaiduObsStorage),
        (PValue (VOLCENGINE_TOS st), VolcengineTosStorage),
        (PValue (SUPBASE st), SupabaseStorage),
        (POr (PValue (LOCAL st)) PWildcard, LocalFsStorage)]"

text \<open>
  Modelled from the spec: the values of the \<open>StorageType\<close> members, which the sources do
  not contain. They are the identifiers section 3 of the specification lists; it names a
  single \<open>obs\<close> for the two OBS members, so the Baidu member is written out in full.
\<close>

definition spec_storage_types :: StorageType where
  "spec_storage_types =
     \<lparr>S3 = ''s3'', AZURE_BLOB = ''azure-blob'', ALIYUN_OSS = ''oss'', GOOGLE_STORAGE = ''gcs'',
      TENCENT_COS = ''cos'', OCI_STORAGE = ''oci'', HUAWEI_OBS = ''obs'',
      BAIDU_OBS = ''baidu-obs'', VOLCENGINE_TOS = ''volcengine-tos'', SUPBASE = ''supabase'',
      LOCAL = ''local''\<rparr>"

subsection \<open>Driver instances, the drivers' behaviour and the process state\<close>

text \<open>
  A driver instance is an object of one of the driver classes; \<open>inst_id\<close> is its identity
  (two instances of one class are different objects).
\<close>

record driver_instance =
  inst_class :: driver_class
  inst_id :: nat

text \<open>
  The drivers are external collaborators: what their constructor and their six operations
  do to the storage medium \<open>'b\<close>, and what they return or raise, is a parameter. So are
  the clock that \<open>time.time()\<close> reads (in ticks) and the standard output that \<open>print\<close>
  writes to, which belong to the world outside: either call may raise, and
  \<open>print_raises\<close> is the exception \<open>print\<close> raises there, if any.
\<close>

record 'b drivers =
  drv_init :: "driver_class \<Rightarrow> 'b \<Rightarrow> (exn + unit) \<times> 'b"
  drv_save :: "driver_instance \<Rightarrow> string \<Rightarrow> bytes \<Rightarrow> 'b \<Rightarrow> (exn + pyval) \<times> 'b"
  drv_load_once :: "driver_instance \<Rightarrow> string \<Rightarrow> 'b \<Rightarrow> (exn + pyval) \<times> 'b"
  drv_load_stream :: "driver_instance \<Rightarrow> string \<Rightarrow> 'b \<Rightarrow> (exn + pyval) \<times> 'b"
  drv_download :: "driver_instance \<Rightarrow> string \<Rightarrow> string \<Rightarrow> 'b \<Rightarrow> (exn + pyval) \<times> 'b"
  drv_exists :: "driver_instance \<Rightarrow> string \<Rightarrow> 'b \<Rightarrow> (exn + pyval) \<times> 'b"
  drv_delete :: "driver_instance \<Rightarrow> string \<Rightarrow> 'b \<Rightarrow> (exn + pyval) \<times> 'b"
  time_time :: "'b \<Rightarrow> exn + int"
  print_raises :: "'b \<Rightarrow> exn option"

text \<open>
  The state of the process: the facade's one field \<open>storage_runner\<close> (\<open>None\<close> after
  \<open>__init__\<close>), the storage medium, the records written by \<open>logging.exception\<close> (format
  string and exception), the lines printed by \<open>timeit\<close> (function name and elapsed ticks),
  the number of driver instances constructed so far, and the observations the module's
  histogram \<open>REQUEST_LATENCY\<close> has received.
\<close>

record 'b state =
  storage_runner :: "driver_instance option"
  backend :: 'b
  logged :: "(string \<times> exn) list"
  printed :: "(string \<times> int) list"
  constructed :: nat
  REQUEST_LATENCY :: "int list"

text \<open>
  The process once the module is imported: the histogram is created empty and
  \<open>Storage.__init__\<close> has run, by the module-level \<open>storage = Storage()\<close>.
\<close>

definition Storage_init :: "'b \<Rightarrow> 'b state" where
  "Storage_init b =
     \<lparr>storage_runner = None, backend = b, logged = [], printed = [], constructed = 0,
      REQUEST_LATENCY = []\<rparr>"

subsection \<open>The facade\<close>

text \<open>
  \<open>init_app\<close>: resolve the configured identifier (\<open>dify_config.STORAGE_TYPE\<close>, here the
  argument \<open>STORAGE_TYPE\<close>), call the class and retain the instance. A constructor that
  raises leaves \<open>storage_runner\<close> as it was. The application context entered around the
  call belongs to the web framework and is not modelled. Calling \<open>None\<close> would raise a
  TypeError.
\<close>

definition init_app :: "'b drivers \<Rightarrow> StorageType \<Rightarrow> string \<Rightarrow> 'b state \<Rightarrow> (exn + pyval) \<times> 'b state" where
  "init_app env st STORAGE_TYPE s =
     (case get_storage_factory st STORAGE_TYPE of
        None \<Rightarrow> (Inl (TypeError ''NoneType object is not callable''), s)
      | Some storage_factory \<Rightarrow>
          (case drv_init env storage_factory (backend s) of
             (Inl e, b') \<Rightarrow> (Inl e, s\<lparr>backend := b'\<rparr>)
           | (Inr u, b') \<Rightarrow>
               (Inr PyNone,
                s\<lparr>storage_runner := Some \<lparr>inst_class = storage_factory, inst_id = constructed s\<rparr>,
                  backend := b',
                  constructed := Suc (constructed s)\<rparr>)))"

text \<open>
  \<open>self.storage_runner.m(...)\<close>: the attribute lookup on \<open>None\<close> raises AttributeError
  before anything is called; otherwise the retained driver's method runs on the medium.
\<close>

definition call_runner ::
  "'b state \<Rightarrow> string \<Rightarrow> (driver_instance \<Rightarrow> 'b \<Rightarrow> (exn + pyval) \<times> 'b) \<Rightarrow> (exn + pyval) \<times> 'b state" where
  "call_runner s attr m =
     (case storage_runner s of
        None \<Rightarrow> (Inl (AttributeError attr), s)
      | Some runner \<Rightarrow> (case m runner (backend s) of (r, b') \<Rightarrow> (r, s\<lparr>backend := b'\<rparr>)))"

text \<open>
  \<open>try: ... except Exception as e: logging.exception(msg, e); raise e\<close>: an exception
  deriving from \<open>Exception\<close> is logged and the same exception raised again.
\<close>

definition try_except :: "string \<Rightarrow> (exn + pyval) \<times> 'b state \<Rightarrow> (exn + pyval) \<times> 'b state" where
  "try_except msg body =
     (case body of
        (Inl e, s) \<Rightarrow>
          (if is_Exception e then (Inl e, s\<lparr>logged := logged s @ [(msg, e)]\<rparr>) else (Inl e, s))
      | (Inr v, s) \<Rightarrow> (Inr v, s))"

text \<open>A call used as a statement: its value is dropped and the method returns \<open>None\<close>.\<close>

definition stmt :: "(exn + pyval) \<times> 'b state \<Rightarrow> (exn + pyval) \<times> 'b state" where
  "stmt body = (case body of (Inl e, s) \<Rightarrow> (Inl e, s) | (Inr v, s) \<Rightarrow> (Inr PyNone, s))"

definition save :: "'b drivers \<Rightarrow> string \<Rightarrow> bytes \<Rightarrow> 'b state \<Rightarrow> (exn + pyval) \<times> 'b state" where
  "save env filename data s =
     try_except ''Failed to save file: %s''
       (stmt (call_runner s ''save'' (\<lambda>runner. drv_save env runner filename data)))"

definition load_once :: "'b drivers \<Rightarrow> string \<Rightarrow> 'b state \<Rightarrow> (exn + pyval) \<times> 'b state" where
  "load_once env filename s =
     try_except ''Failed to load_once file: %s''
       (call_runner s ''load_once'' (\<lambda>runner. drv_load_once env runner filename))"

definition load_stream :: "'b drivers \<Rightarrow> string \<Rightarrow> 'b state \<Rightarrow> (exn + pyval) \<times> 'b state" where
  "load_stream env filename s =
     try_except ''Failed to load_stream file: %s''
       (call_runner s ''load_stream'' (\<lambda>runner. drv_load_stream env runner filename))"

text \<open>
  \<open>load(filename, /, *, stream=False)\<close>: the keyword argument is optional, \<open>None\<close> is a
  call that leaves it out. The two branches call the facade's own methods, inside a
  handler of its own.
\<close>

definition load :: "'b drivers \<Rightarrow> string \<Rightarrow> bool option \<Rightarrow> 'b state \<Rightarrow> (exn + pyval) \<times> 'b state" where
  "load env filename stream_kw s =
     (let stream = (case stream_kw of None \<Rightarrow> False | Some b \<Rightarrow> b)
      in try_except ''Failed to load file: %s''
           (if stream then load_stream env filename s else load_once env filename s))"

definition download :: "'b drivers \<Rightarrow> string \<Rightarrow> string \<Rightarrow> 'b state \<Rightarrow> (exn + pyval) \<times> 'b state" where
  "download env filename target_filepath s =
     try_except ''Failed to download file: %s''
       (stmt (call_runner s ''download'' (\<lambda>runner. drv_download env runner filename target_filepath)))"

definition exists :: "'b drivers \<Rightarrow> string \<Rightarrow> 'b state \<Rightarrow> (exn + pyval) \<times> 'b state" where
  "exists env filename s =
     try_except ''Failed to check file exists: %s''
       (call_runner s ''exists'' (\<lambda>runner. drv_exists env runner filename))"

definition delete :: "'b drivers \<Rightarrow> string \<Rightarrow> 'b state \<Rightarrow> (exn + pyval) \<times> 'b state" where
  "delete env filename s =
     try_except ''Failed to delete file: %s''
       (call_runner s ''delete'' (\<lambda>runner. drv_delete env runner filename))"

text \<open>
  The decorator \<open>timeit\<close>: read the clock, run the function, read the clock again, print,
  return the result. No step is guarded: an exception of the first clock read leaves
  before the function runs, an exception of the function leaves the wrapper at once, and
  an exception of the second clock read or of \<open>print\<close> leaves after the function has
  returned, in place of its result. The histogram is not touched.
\<close>

definition timeit ::
  "'b drivers \<Rightarrow> string \<Rightarrow> ('b state \<Rightarrow> (exn + pyval) \<times> 'b state) \<Rightarrow> 'b state \<Rightarrow> (exn + pyval) \<times> 'b state" where
  "timeit env func_name func s =
     (case time_time env (backend s) of
        Inl e \<Rightarrow> (Inl e, s)
      | Inr start_time \<Rightarrow>
          (case func s of
             (Inl e, s') \<Rightarrow> (Inl e, s')
           | (Inr result, s') \<Rightarrow>
               (case time_time env (backend s') of
                  Inl e \<Rightarrow> (Inl e, s')
                | Inr end_time \<Rightarrow>
                    (let elapsed_time = end_time - start_time
                     in case print_raises env (backend s') of
                          Some e \<Rightarrow> (Inl e, s')
                        | None \<Rightarrow>
                            (Inr result,
                             s'\<lparr>printed := printed s' @ [(func_name, elapsed_time)]\<rparr>)))))"

subsection \<open>Callers of the facade\<close>

text \<open>One call of a facade operation, and a sequence of such calls in any order.\<close>

datatype facade_op =
    Save string bytes
  | Load string "bool option"
  | LoadOnce string
  | LoadStream string
  | Download string string
  | Exists string
  | Delete string

fun run_op :: "'b drivers \<Rightarrow> facade_op \<Rightarrow> 'b state \<Rightarrow> (exn + pyval) \<times> 'b state" where
  "run_op env (Save filename data) s = save env filename data s"
| "run_op env (Load filename stream_kw) s = load env filename stream_kw s"
| "run_op env (LoadOnce filename) s = load_once env filename s"
| "run_op env (LoadStream filename) s = load_stream env filename s"
| "run_op env (Download filename target_filepath) s = download env filename target_filepath s"
| "run_op env (Exists filename) s = exists env filename s"
| "run_op env (Delete filename) s = delete env filename s"

text \<open>A caller that goes on after a failure (it caught the exception): the state is kept.\<close>

fun run_ops :: "'b drivers \<Rightarrow> facade_op list \<Rightarrow> 'b state \<Rightarrow> 'b state" where
  "run_ops env [] s = s"
| "run_ops env (op # ops) s = run_ops env ops (snd (run_op env op s))"

text \<open>The operation of the driver that has the name of the facade's operation.\<close>

fun driver_op :: "'b drivers \<Rightarrow> driver_instance \<Rightarrow> facade_op \<Rightarrow> 'b \<Rightarrow> (exn + pyval) \<times> 'b" where
  "driver_op env d (Save filename data) = drv_save env d filename data"
| "driver_op env d (Load filename stream_kw) =
     (if stream_kw = Some True then drv_load_stream env d filename else drv_load_once env d filename)"
| "driver_op env d (LoadOnce filename) = drv_load_once env d filename"
| "driver_op env d (LoadStream filename) = drv_load_stream env d filename"
| "driver_op env d (Download filename target_filepath) = drv_download env d filename target_filepath"
| "driver_op env d (Exists filename) = drv_exists env d filename"
| "driver_op env d (Delete filename) = drv_delete env d filename"

text \<open>Operations whose call is a statement of the facade's method (no \<open>return\<close>).\<close>

fun returns_nothing :: "facade_op \<Rightarrow> bool" where
  "returns_nothing (Save filename data) = True"
| "returns_nothing (Download filename target_filepath) = True"
| "returns_nothing op = False"

text \<open>
  The retained instance is one of those constructed so far. It holds when the module is
  imported and every call keeps it.
\<close>

definition retained_is_constructed :: "'b state \<Rightarrow> bool" where
  "retained_is_constructed s =
     (case storage_runner s of None \<Rightarrow> True | Some d \<Rightarrow> inst_id d < constructed s)"

text \<open>A consumer of the stream: \<open>for chunk in storage.load_stream(filename)\<close>.\<close>

definition consume_stream :: "'b drivers \<Rightarrow> string \<Rightarrow> 'b state \<Rightarrow> (exn + pyval list) \<times> 'b state" where
  "consume_stream env filename s =
     (case load_stream env filename s of
        (Inl e, s') \<Rightarrow> (Inl e, s')
      | (Inr v, s') \<Rightarrow> (iterate v, s'))"

subsection \<open>An in-memory driver\<close>

text \<open>
  A driver over an association list from keys to payloads, for running the facade on
  concrete inputs. Its stream is lazy: a missing key shows when the stream is read.
  A key that starts with \<open>!\<close> stands for a transport failure.
\<close>

definition unreachable :: "string \<Rightarrow> bool" where
  "unreachable filename = (case filename of [] \<Rightarrow> False | c # cs \<Rightarrow> c = CHR ''!'')"

definition mem_drivers :: "((string \<times> bytes) list) drivers" where
  "mem_drivers =
     \<lparr>drv_init = (\<lambda>c b. (Inr (), b)),
      drv_save = (\<lambda>d f data b.
        if unreachable f then (Inl (DriverError ''TransportError''), b)
        else (Inr PyNone, (f, data) # filter (\<lambda>kv. fst kv \<noteq> f) b)),
      drv_load_once = (\<lambda>d f b.
        if unreachable f then (Inl (DriverError ''TransportError''), b)
        else case map_of b f of
               None \<Rightarrow> (Inl (DriverError ''NotFound''), b)
             | Some v \<Rightarrow> (Inr (PyBytes v), b)),
      drv_load_stream = (\<lambda>d f b.
        if unreachable f then (Inl (DriverError ''TransportError''), b)
        else case map_of b f of
               None \<Rightarrow> (Inr (PyGenerator [Inl (DriverError ''NotFound'')]), b)
             | Some v \<Rightarrow> (Inr (PyGenerator [Inr v]), b)),
      drv_download = (\<lambda>d f t b.
        if unreachable f then (Inl (DriverError ''TransportError''), b)
        else case map_of b f of
               None \<Rightarrow> (Inl (DriverError ''NotFound''), b)
             | Some v \<Rightarrow> (Inr PyNone, b)),
      drv_exists = (\<lambda>d f b.
        if unreachable f then (Inl (DriverError ''TransportError''), b)
        else (Inr (PyBool (map_of b f \<noteq> None)), b)),
      drv_delete = (\<lambda>d f b.
        if unreachable f then (Inl (DriverError ''TransportError''), b)
        else (Inr PyNone, filter (\<lambda>kv. fst kv \<noteq> f) b)),
      time_time = (\<lambda>b. Inr (int (length b))),
      print_raises = (\<lambda>b. None)\<rparr>"

text \<open>A driver whose \<open>save\<close> and \<open>download\<close> return a value (say, the response of its client).\<close>

definition talkative_drivers :: "((string \<times> bytes) list) drivers" where
  "talkative_drivers =
     mem_drivers
       \<lparr>drv_save := (\<lambda>d f data b. (Inr (PyBool True), (f, data) # filter (\<lambda>kv. fst kv \<noteq> f) b)),
        drv_download := (\<lambda>d f t b. (Inr (PyBool True), b))\<rparr>"

text \<open>Drivers whose constructor fails (a missing configuration).\<close>

definition unconfigured_drivers :: "((string \<times> bytes) list) drivers" where
  "unconfigured_drivers =
     mem_drivers\<lparr>drv_init := (\<lambda>c b. (Inl (DriverError ''ConfigurationError''), b))\<rparr>"

text \<open>The in-memory driver in a process whose standard output cannot be written.\<close>

definition closed_stdout_drivers :: "((string \<times> bytes) list) drivers" where
  "closed_stdout_drivers = mem_drivers\<lparr>print_raises := (\<lambda>b. Some (OSError ''Broken pipe''))\<rparr>"

text \<open>The facade after a successful \<open>init_app\<close> over the in-memory driver.\<close>

definition mem_ready :: "((string \<times> bytes) list) state" where
  "mem_ready = snd (init_app mem_drivers spec_storage_types ''local'' (Storage_init []))"

section \<open>Properties\<close>

subsection \<open>Reading the handlers and the call of the driver\<close>

lemma fst_try_except: "fst (try_except msg body) = fst body"
  by (cases body) (simp add: try_except_def split: sum.splits)

lemma frame_try_except:
  "storage_runner (snd (try_except msg body)) = storage_runner (snd body)"
  "backend (snd (try_except msg body)) = backend (snd body)"
  "constructed (snd (try_except msg body)) = constructed (snd body)"
  "printed (snd (try_except msg body)) = printed (snd body)"
  by (cases body; simp add: try_except_def split: sum.splits)+

lemma fst_stmt:
  "fst (stmt body) = (case fst body of Inl e \<Rightarrow> Inl e | Inr v \<Rightarrow> Inr PyNone)"
  by (cases body) (simp add: stmt_def split: sum.splits)

lemma snd_stmt: "snd (stmt body) = snd body"
  by (cases body) (simp add: stmt_def split: sum.splits)

lemma call_runner_None:
  "storage_runner s = None \<Longrightarrow> call_runner s attr m = (Inl (AttributeError attr), s)"
  by (simp add: call_runner_def)

lemma call_runner_Some:
  "storage_runner s = Some d \<Longrightarrow>
   call_runner s attr m = (fst (m d (backend s)), s\<lparr>backend := snd (m d (backend s))\<rparr>)"
  by (simp add: call_runner_def split: prod.splits)

lemma frame_call_runner:
  "storage_runner (snd (call_runner s attr m)) = storage_runner s"
  "constructed (snd (call_runner s attr m)) = constructed s"
  "logged (snd (call_runner s attr m)) = logged s"
  "printed (snd (call_runner s attr m)) = printed s"
  by (simp_all add: call_runner_def split: option.splits prod.splits)

lemmas facade_defs =
  save_def load_def load_once_def load_stream_def download_def exists_def delete_def

lemma frame_run_op:
  "storage_runner (snd (run_op env op s)) = storage_runner s"
  "constructed (snd (run_op env op s)) = constructed s"
  "printed (snd (run_op env op s)) = printed s"
  by (cases op; simp add: facade_defs Let_def frame_try_except snd_stmt frame_call_runner)+

lemma frame_run_ops:
  "storage_runner (run_ops env ops s) = storage_runner s \<and>
   constructed (run_ops env ops s) = constructed s"
  by (induction ops arbitrary: s) (simp_all add: frame_run_op)

lemma fst_run_op_Some:
  assumes "storage_runner s = Some d"
  shows "fst (run_op env op s) =
     (case fst (driver_op env d op (backend s)) of
        Inl e \<Rightarrow> Inl e
      | Inr v \<Rightarrow> Inr (if returns_nothing op then PyNone else v))"
  using assms
  by (cases op)
     (auto simp add: facade_defs Let_def fst_try_except fst_stmt call_runner_Some
           split: sum.splits option.splits)

lemma backend_run_op_Some:
  assumes "storage_runner s = Some d"
  shows "backend (snd (run_op env op s)) = snd (driver_op env d op (backend s))"
  using assms
  by (cases op)
     (auto simp add: facade_defs Let_def frame_try_except snd_stmt call_runner_Some
           split: option.splits)

lemma run_op_None:
  assumes "storage_runner s = None"
  shows "(\<exists>m. fst (run_op env op s) = Inl (AttributeError m)) \<and> backend (snd (run_op env op s)) = backend s"
  using assms
  by (cases op)
     (auto simp add: facade_defs Let_def fst_try_except frame_try_except fst_stmt snd_stmt call_runner_None)


lemma histogram_try_except:
  "REQUEST_LATENCY (snd (try_except msg body)) = REQUEST_LATENCY (snd body)"
  by (cases body) (simp add: try_except_def split: sum.splits)

lemma histogram_call_runner:
  "REQUEST_LATENCY (snd (call_runner s attr m)) = REQUEST_LATENCY s"
  by (simp add: call_runner_def split: option.splits prod.splits)

lemma histogram_run_op: "REQUEST_LATENCY (snd (run_op env op s)) = REQUEST_LATENCY s"
  by (cases op; simp add: facade_defs Let_def histogram_try_except snd_stmt histogram_call_runner)

subsection \<open>The registry is total\<close>

lemma get_storage_factory_Some: "\<exists>c. get_storage_factory st storage_type = Some c"
  by (simp add: get_storage_factory_def)

lemma get_storage_factory_unknown:
  "storage_type \<notin> set (member_values st) \<Longrightarrow>
   get_storage_factory st storage_type = Some LocalFsStorage"
  by (simp add: get_storage_factory_def member_values_def)

lemma get_storage_factory_S3:
  "distinct (member_values st) \<Longrightarrow> get_storage_factory st (S3 st) = Some AwsS3Storage"
  by (auto simp add: get_storage_factory_def member_values_def)

lemma get_storage_factory_AZURE_BLOB:
  "distinct (member_values st) \<Longrightarrow> get_storage_factory st (AZURE_BLOB st) = Some AzureBlobStorage"
  by (auto simp add: get_storage_factory_def member_values_def)

lemma get_storage_factory_ALIYUN_OSS:
  "distinct (member_values st) \<Longrightarrow> get_storage_factory st (ALIYUN_OSS st) = Some AliyunOssStorage"
  by (auto simp add: get_storage_factory_def member_values_def)

lemma get_storage_factory_GOOGLE_STORAGE:
  "distinct (member_values st) \<Longrightarrow> get_storage_factory st (GOOGLE_STORAGE st) = Some GoogleCloudStorage"
  by (auto simp add: get_storage_factory_def member_values_def)

lemma get_storage_factory_TENCENT_COS:
  "distinct (member_values st) \<Longrightarrow> get_storage_factory st (TENCENT_COS st) = Some TencentCosStorage"
  by (auto simp add: get_storage_factory_def member_values_def)

lemma get_storage_factory_OCI_STORAGE:
  "distinct (member_values st) \<Longrightarrow> get_storage_factory st (OCI_STORAGE st) = Some OracleOCIStorage"
  by (auto simp add: get_storage_factory_def member_values_def)

lemma get_storage_factory_HUAWEI_OBS:
  "distinct (member_values st) \<Longrightarrow> get_storage_factory st (HUAWEI_OBS st) = Some HuaweiObsStorage"
  by (auto simp add: get_storage_factory_def member_values_def)

lemma get_storage_factory_BAIDU_OBS:
  "distinct (member_values st) \<Longrightarrow> get_storage_factory st (BAIDU_OBS st) = Some BaiduObsStorage"
  by (auto simp add: get_storage_factory_def member_values_def)

lemma get_storage_factory_VOLCENGINE_TOS:
  "distinct (member_values st) \<Longrightarrow> get_storage_factory st (VOLCENGINE_TOS st) = Some VolcengineTosStorage"
  by (auto simp add: get_storage_factory_def member_values_def)

lemma get_storage_factory_SUPBASE:
  "distinct (member_values st) \<Longrightarrow> get_storage_factory st (SUPBASE st) = Some SupabaseStorage"
  by (auto simp add: get_storage_factory_def member_values_def)

lemma get_storage_factory_LOCAL:
  "distinct (member_values st) \<Longrightarrow> get_storage_factory st (LOCAL st) = Some LocalFsStorage"
  by (auto simp add: get_storage_factory_def member_values_def)

text \<open>
  Claim C1. \<open>get_storage_factory\<close> resolves every identifier string to a driver class
  (the \<open>match\<close> never falls through to \<open>None\<close>) and instantiates nothing, being a function
  of the identifier alone. Where the members of \<open>StorageType\<close> have pairwise different
  values, each member yields the class of its own case (so \<open>s3\<close> yields \<open>AwsS3Storage\<close>
  when that is the value of the member \<open>S3\<close>), and the member \<open>LOCAL\<close>, every string that is
  no member's value and the empty string, when no member has it, all yield \<open>LocalFsStorage\<close>.
\<close>

theorem get_storage_factory_total:
  assumes "distinct (member_values st)"
  shows "(\<exists>c. get_storage_factory st storage_type = Some c)
    \<and> get_storage_factory st (S3 st) = Some AwsS3Storage
    \<and> get_storage_factory st (AZURE_BLOB st) = Some AzureBlobStorage
    \<and> get_storage_factory st (ALIYUN_OSS st) = Some AliyunOssStorage
    \<and> get_storage_factory st (GOOGLE_STORAGE st) = Some GoogleCloudStorage
    \<and> get_storage_factory st (TENCENT_COS st) = Some TencentCosStorage
    \<and> get_storage_factory st (OCI_STORAGE st) = Some OracleOCIStorage
    \<and> get_storage_factory st (HUAWEI_OBS st) = Some HuaweiObsStorage
    \<and> get_storage_factory st (BAIDU_OBS st) = Some BaiduObsStorage
    \<and> get_storage_factory st (VOLCENGINE_TOS st) = Some VolcengineTosStorage
    \<and> get_storage_factory st (SUPBASE st) = Some SupabaseStorage
    \<and> get_storage_factory st (LOCAL st) = Some LocalFsStorage
    \<and> (storage_type \<notin> set (member_values st) \<longrightarrow>
          get_storage_factory st storage_type = Some LocalFsStorage)
    \<and> (S3 st = ''s3'' \<longrightarrow> get_storage_factory st ''s3'' = Some AwsS3Storage)
    \<and> (LOCAL st = ''local'' \<longrightarrow> get_storage_factory st ''local'' = Some LocalFsStorage)
    \<and> ([] \<notin> set (member_values st) \<longrightarrow> get_storage_factory st [] = Some LocalFsStorage)"
proof -
  note d = assms
  have s3: "S3 st = ''s3'' \<longrightarrow> get_storage_factory st ''s3'' = Some AwsS3Storage"
    using get_storage_factory_S3 [OF d] by (intro impI) (erule subst)
  have loc: "LOCAL st = ''local'' \<longrightarrow> get_storage_factory st ''local'' = Some LocalFsStorage"
    using get_storage_factory_LOCAL [OF d] by (intro impI) (erule subst)
  have unk: "storage_type \<notin> set (member_values st) \<longrightarrow>
          get_storage_factory st storage_type = Some LocalFsStorage"
    by (intro impI) (rule get_storage_factory_unknown)
  have emp: "[] \<notin> set (member_values st) \<longrightarrow> get_storage_factory st [] = Some LocalFsStorage"
    by (intro impI) (rule get_storage_factory_unknown)
  show ?thesis
    by (intro conjI get_storage_factory_Some s3 loc unk emp
        get_storage_factory_S3 [OF d] get_storage_factory_AZURE_BLOB [OF d]
        get_storage_factory_ALIYUN_OSS [OF d] get_storage_factory_GOOGLE_STORAGE [OF d]
        get_storage_factory_TENCENT_COS [OF d] get_storage_factory_OCI_STORAGE [OF d]
        get_storage_factory_HUAWEI_OBS [OF d] get_storage_factory_BAIDU_OBS [OF d]
        get_storage_factory_VOLCENGINE_TOS [OF d] get_storage_factory_SUPBASE [OF d]
        get_storage_factory_LOCAL [OF d])
qed

theorem get_storage_factory_total_witness:
  "distinct (member_values spec_storage_types)
   \<and> ''bogus-name'' \<notin> set (member_values spec_storage_types)
   \<and> [] \<notin> set (member_values spec_storage_types)
   \<and> get_storage_factory spec_storage_types ''s3'' = Some AwsS3Storage
   \<and> get_storage_factory spec_storage_types ''bogus-name'' = Some LocalFsStorage
   \<and> get_storage_factory spec_storage_types [] = Some LocalFsStorage
   \<and> get_storage_factory spec_storage_types ''local'' = Some LocalFsStorage"
proof -
  have d: "distinct (member_values spec_storage_types)"
    by (simp add: member_values_def spec_storage_types_def)
  have u: "''bogus-name'' \<notin> set (member_values spec_storage_types)"
    by (simp add: member_values_def spec_storage_types_def)
  have n: "[] \<notin> set (member_values spec_storage_types)"
    by (simp add: member_values_def spec_storage_types_def)
  have s3: "S3 spec_storage_types = ''s3''" and loc: "LOCAL spec_storage_types = ''local''"
    by (simp_all add: spec_storage_types_def)
  from get_storage_factory_total [OF d, of "''bogus-name''"] u n s3 loc d
  show ?thesis by simp
qed

subsection \<open>The in-memory facade\<close>

lemma mem_ready_eq:
  "mem_ready = \<lparr>storage_runner = Some \<lparr>inst_class = LocalFsStorage, inst_id = 0\<rparr>,
      backend = [], logged = [], printed = [], constructed = Suc 0, REQUEST_LATENCY = []\<rparr>"
  by (simp add: mem_ready_def init_app_def Storage_init_def get_storage_factory_def
      spec_storage_types_def mem_drivers_def)

lemma mem_ready_runner:
  "storage_runner mem_ready = Some \<lparr>inst_class = LocalFsStorage, inst_id = 0\<rparr>"
  by (simp add: mem_ready_eq)

subsection \<open>Failures are raised again, results are returned\<close>

lemma talkative_save:
  "drv_save talkative_drivers d ''a.txt'' [104, 105] (backend mem_ready)
     = (Inr (PyBool True), [(''a.txt'', [104, 105])])"
  by (simp add: mem_ready_eq talkative_drivers_def mem_drivers_def)

lemma talkative_download:
  "drv_download talkative_drivers d ''a.txt'' ''/tmp/a'' (backend mem_ready)
     = (Inr (PyBool True), [])"
  by (simp add: mem_ready_eq talkative_drivers_def mem_drivers_def)

text \<open>
  Claim C2, as stated, fails for \<open>save\<close> (and \<open>download\<close>): the method has no \<open>return\<close>, so
  where the driver's \<open>save\<close> succeeds with a value, the facade returns \<open>None\<close> and not
  that value.
\<close>

theorem save_drops_result:
  "storage_runner mem_ready = Some \<lparr>inst_class = LocalFsStorage, inst_id = 0\<rparr>
   \<and> fst (driver_op talkative_drivers \<lparr>inst_class = LocalFsStorage, inst_id = 0\<rparr>
            (Save ''a.txt'' [104, 105]) (backend mem_ready)) = Inr (PyBool True)
   \<and> fst (run_op talkative_drivers (Save ''a.txt'' [104, 105]) mem_ready) = Inr PyNone
   \<and> fst (run_op talkative_drivers (Save ''a.txt'' [104, 105]) mem_ready)
       \<noteq> fst (driver_op talkative_drivers \<lparr>inst_class = LocalFsStorage, inst_id = 0\<rparr>
            (Save ''a.txt'' [104, 105]) (backend mem_ready))"
  using fst_run_op_Some [OF mem_ready_runner, of talkative_drivers "Save ''a.txt'' [104, 105]"]
    mem_ready_runner
  by (simp add: talkative_save)

text \<open>
  Claim C2, amended. With a driver retained, every facade operation (save, load,
  load_once, load_stream, download, exists, delete) that finds the driver's same-named
  operation raising an exception raises that very exception, and one that finds it
  succeeding succeeds: load, load_once, load_stream, exists and delete return the
  driver's value, and \<open>save\<close> and \<open>download\<close>, whose call of the driver is a statement,
  return \<open>None\<close> whatever the driver returned. For \<open>load\<close> the driver's operation is
  \<open>load_stream\<close> or \<open>load_once\<close>, by the flag.
\<close>

theorem facade_reraises:
  assumes "storage_runner s = Some d"
  shows "(fst (driver_op env d op (backend s)) = Inl e \<longrightarrow> fst (run_op env op s) = Inl e)
    \<and> (fst (driver_op env d op (backend s)) = Inr v \<longrightarrow>
         fst (run_op env op s) = Inr (if returns_nothing op then PyNone else v))"
  by (simp add: fst_run_op_Some [OF assms])

theorem facade_reraises_witness:
  "storage_runner mem_ready = Some \<lparr>inst_class = LocalFsStorage, inst_id = 0\<rparr>
   \<and> fst (driver_op mem_drivers \<lparr>inst_class = LocalFsStorage, inst_id = 0\<rparr> (LoadOnce ''a.txt'') (backend mem_ready))
       = Inl (DriverError ''NotFound'')
   \<and> fst (run_op mem_drivers (LoadOnce ''a.txt'') mem_ready) = Inl (DriverError ''NotFound'')
   \<and> fst (driver_op mem_drivers \<lparr>inst_class = LocalFsStorage, inst_id = 0\<rparr> (Exists ''a.txt'') (backend mem_ready))
       = Inr (PyBool False)
   \<and> fst (run_op mem_drivers (Exists ''a.txt'') mem_ready) = Inr (PyBool False)
   \<and> fst (driver_op mem_drivers \<lparr>inst_class = LocalFsStorage, inst_id = 0\<rparr> (Save ''!a.txt'' [104, 105]) (backend mem_ready))
       = Inl (DriverError ''TransportError'')
   \<and> fst (run_op mem_drivers (Save ''!a.txt'' [104, 105]) mem_ready) = Inl (DriverError ''TransportError'')
   \<and> fst (driver_op talkative_drivers \<lparr>inst_class = LocalFsStorage, inst_id = 0\<rparr> (Save ''a.txt'' [104, 105]) (backend mem_ready))
       = Inr (PyBool True)
   \<and> fst (run_op talkative_drivers (Save ''a.txt'' [104, 105]) mem_ready) = Inr PyNone
   \<and> fst (driver_op talkative_drivers \<lparr>inst_class = LocalFsStorage, inst_id = 0\<rparr> (Download ''a.txt'' ''/tmp/a'') (backend mem_ready))
       = Inr (PyBool True)
   \<and> fst (run_op talkative_drivers (Download ''a.txt'' ''/tmp/a'') mem_ready) = Inr PyNone"
proof -
  let ?d = "\<lparr>inst_class = LocalFsStorage, inst_id = 0\<rparr>"
  have a: "fst (driver_op mem_drivers ?d (LoadOnce ''a.txt'') (backend mem_ready))
       = Inl (DriverError ''NotFound'')"
    by (simp add: mem_ready_eq mem_drivers_def unreachable_def)
  have b: "fst (driver_op mem_drivers ?d (Exists ''a.txt'') (backend mem_ready))
       = Inr (PyBool False)"
    by (simp add: mem_ready_eq mem_drivers_def unreachable_def)
  have c: "fst (driver_op mem_drivers ?d (Save ''!a.txt'' [104, 105]) (backend mem_ready))
       = Inl (DriverError ''TransportError'')"
    by (simp add: mem_ready_eq mem_drivers_def unreachable_def)
  have f: "fst (driver_op talkative_drivers ?d (Save ''a.txt'' [104, 105]) (backend mem_ready))
       = Inr (PyBool True)"
    by (simp add: talkative_save)
  have g: "fst (driver_op talkative_drivers ?d (Download ''a.txt'' ''/tmp/a'') (backend mem_ready))
       = Inr (PyBool True)"
    by (simp add: talkative_download)
  have 1: "fst (run_op mem_drivers (LoadOnce ''a.txt'') mem_ready) = Inl (DriverError ''NotFound'')"
    using facade_reraises [OF mem_ready_runner, of mem_drivers "LoadOnce ''a.txt''"
        "DriverError ''NotFound''" PyNone] a by simp
  have 2: "fst (run_op mem_drivers (Exists ''a.txt'') mem_ready) = Inr (PyBool False)"
    using facade_reraises [OF mem_ready_runner, of mem_drivers "Exists ''a.txt''"
        "DriverError ''NotFound''" "PyBool False"] b by simp
  have 3: "fst (run_op mem_drivers (Save ''!a.txt'' [104, 105]) mem_ready)
       = Inl (DriverError ''TransportError'')"
    using facade_reraises [OF mem_ready_runner, of mem_drivers "Save ''!a.txt'' [104, 105]"
        "DriverError ''TransportError''" PyNone] c by simp
  have 4: "fst (run_op talkative_drivers (Save ''a.txt'' [104, 105]) mem_ready) = Inr PyNone"
    using facade_reraises [OF mem_ready_runner, of talkative_drivers "Save ''a.txt'' [104, 105]"
        "DriverError ''NotFound''" "PyBool True"] f by simp
  have 5: "fst (run_op talkative_drivers (Download ''a.txt'' ''/tmp/a'') mem_ready) = Inr PyNone"
    using facade_reraises [OF mem_ready_runner, of talkative_drivers "Download ''a.txt'' ''/tmp/a''"
        "DriverError ''NotFound''" "PyBool True"] g by simp
  show ?thesis
    by (intro conjI mem_ready_runner a b c f g 1 2 3 4 5)
qed

subsection \<open>The dispatch of load\<close>

lemma load_stream_flag:
  "fst (load env filename (Some True) s) = fst (load_stream env filename s)"
  "backend (snd (load env filename (Some True) s)) = backend (snd (load_stream env filename s))"
  "storage_runner (snd (load env filename (Some True) s)) = storage_runner (snd (load_stream env filename s))"
  by (simp_all add: load_def fst_try_except frame_try_except)

lemma load_once_flag:
  "fst (load env filename (Some False) s) = fst (load_once env filename s)"
  "backend (snd (load env filename (Some False) s)) = backend (snd (load_once env filename s))"
  "storage_runner (snd (load env filename (Some False) s)) = storage_runner (snd (load_once env filename s))"
  by (simp_all add: load_def fst_try_except frame_try_except)

lemma load_default: "load env filename None s = load env filename (Some False) s"
  by (simp add: load_def)

lemma forward_save:
  "storage_runner s = Some d \<Longrightarrow>
   backend (snd (save env filename data s)) = snd (drv_save env d filename data (backend s))"
  using backend_run_op_Some [of s d env "Save filename data"] by simp

lemma forward_load_once:
  "storage_runner s = Some d \<Longrightarrow>
   fst (load_once env filename s) = fst (drv_load_once env d filename (backend s)) \<and>
   backend (snd (load_once env filename s)) = snd (drv_load_once env d filename (backend s))"
  using backend_run_op_Some [of s d env "LoadOnce filename"]
        fst_run_op_Some [of s d env "LoadOnce filename"]
  by (simp split: sum.splits)

lemma forward_load_stream:
  "storage_runner s = Some d \<Longrightarrow>
   fst (load_stream env filename s) = fst (drv_load_stream env d filename (backend s)) \<and>
   backend (snd (load_stream env filename s)) = snd (drv_load_stream env d filename (backend s))"
  using backend_run_op_Some [of s d env "LoadStream filename"]
        fst_run_op_Some [of s d env "LoadStream filename"]
  by (simp split: sum.splits)

lemma forward_download:
  "storage_runner s = Some d \<Longrightarrow>
   backend (snd (download env filename target s)) = snd (drv_download env d filename target (backend s))"
  using backend_run_op_Some [of s d env "Download filename target"] by simp

lemma forward_exists:
  "storage_runner s = Some d \<Longrightarrow>
   fst (exists env filename s) = fst (drv_exists env d filename (backend s)) \<and>
   backend (snd (exists env filename s)) = snd (drv_exists env d filename (backend s))"
  using backend_run_op_Some [of s d env "Exists filename"]
        fst_run_op_Some [of s d env "Exists filename"]
  by (simp split: sum.splits)

lemma forward_delete:
  "storage_runner s = Some d \<Longrightarrow>
   fst (delete env filename s) = fst (drv_delete env d filename (backend s)) \<and>
   backend (snd (delete env filename s)) = snd (drv_delete env d filename (backend s))"
  using backend_run_op_Some [of s d env "Delete filename"]
        fst_run_op_Some [of s d env "Delete filename"]
  by (simp split: sum.splits)

lemma outcome_save:
  "storage_runner s = Some d \<Longrightarrow>
   fst (save env filename data s) =
     (case fst (drv_save env d filename data (backend s)) of
        Inl e \<Rightarrow> Inl e | Inr v \<Rightarrow> Inr PyNone)"
  using fst_run_op_Some [of s d env "Save filename data"] by (simp split: sum.splits)

lemma outcome_download:
  "storage_runner s = Some d \<Longrightarrow>
   fst (download env filename target s) =
     (case fst (drv_download env d filename target (backend s)) of
        Inl e \<Rightarrow> Inl e | Inr v \<Rightarrow> Inr PyNone)"
  using fst_run_op_Some [of s d env "Download filename target"] by (simp split: sum.splits)

text \<open>
  Claim C3. \<open>load\<close> with \<open>stream=True\<close> returns or raises exactly what \<open>load_stream\<close> does,
  with \<open>stream=False\<close> exactly what \<open>load_once\<close> does, with the same effect on the medium,
  and a call that leaves the flag out is the call with \<open>stream=False\<close>. Every other
  operation calls the driver's operation of the same name once, with its own arguments:
  the medium afterwards is what that call leaves; load_once, load_stream, exists and
  delete return or raise what it returns or raises; save and download raise what it
  raises and return (\<open>None\<close>) when it returns.
\<close>

theorem load_dispatch:
  "fst (load env filename (Some True) s) = fst (load_stream env filename s)
   \<and> backend (snd (load env filename (Some True) s)) = backend (snd (load_stream env filename s))
   \<and> fst (load env filename (Some False) s) = fst (load_once env filename s)
   \<and> backend (snd (load env filename (Some False) s)) = backend (snd (load_once env filename s))
   \<and> load env filename None s = load env filename (Some False) s
   \<and> (storage_runner s = Some d \<longrightarrow>
        backend (snd (save env filename data s)) = snd (drv_save env d filename data (backend s))
      \<and> fst (save env filename data s) =
          (case fst (drv_save env d filename data (backend s)) of
             Inl e \<Rightarrow> Inl e | Inr v \<Rightarrow> Inr PyNone)
      \<and> fst (load_once env filename s) = fst (drv_load_once env d filename (backend s))
      \<and> backend (snd (load_once env filename s)) = snd (drv_load_once env d filename (backend s))
      \<and> fst (load_stream env filename s) = fst (drv_load_stream env d filename (backend s))
      \<and> backend (snd (load_stream env filename s)) = snd (drv_load_stream env d filename (backend s))
      \<and> backend (snd (download env filename target s)) = snd (drv_download env d filename target (backend s))
      \<and> fst (download env filename target s) =
          (case fst (drv_download env d filename target (backend s)) of
             Inl e \<Rightarrow> Inl e | Inr v \<Rightarrow> Inr PyNone)
      \<and> fst (exists env filename s) = fst (drv_exists env d filename (backend s))
      \<and> backend (snd (exists env filename s)) = snd (drv_exists env d filename (backend s))
      \<and> fst (delete env filename s) = fst (drv_delete env d filename (backend s))
      \<and> backend (snd (delete env filename s)) = snd (drv_delete env d filename (backend s)))"
  by (intro conjI impI load_stream_flag load_once_flag load_default
      forward_save forward_download outcome_save outcome_download
      forward_load_once [THEN conjunct1] forward_load_once [THEN conjunct2]
      forward_load_stream [THEN conjunct1] forward_load_stream [THEN conjunct2]
      forward_exists [THEN conjunct1] forward_exists [THEN conjunct2]
      forward_delete [THEN conjunct1] forward_delete [THEN conjunct2])

theorem load_dispatch_witness:
  "storage_runner mem_ready = Some \<lparr>inst_class = LocalFsStorage, inst_id = 0\<rparr>
   \<and> fst (load mem_drivers ''a.txt'' (Some True) mem_ready)
       = Inr (PyGenerator [Inl (DriverError ''NotFound'')])
   \<and> fst (load mem_drivers ''a.txt'' None mem_ready) = Inl (DriverError ''NotFound'')
   \<and> fst (exists mem_drivers ''a.txt'' mem_ready) = Inr (PyBool False)
   \<and> backend (snd (save mem_drivers ''a.txt'' [104, 105] mem_ready)) = [(''a.txt'', [104, 105])]
   \<and> fst (save mem_drivers ''a.txt'' [104, 105] mem_ready) = Inr PyNone
   \<and> fst (save mem_drivers ''!a.txt'' [104, 105] mem_ready) = Inl (DriverError ''TransportError'')
   \<and> fst (download mem_drivers ''a.txt'' ''/tmp/a'' mem_ready) = Inl (DriverError ''NotFound'')"
proof -
  let ?d = "\<lparr>inst_class = LocalFsStorage, inst_id = 0\<rparr>"
  have a: "drv_load_stream mem_drivers ?d ''a.txt'' (backend mem_ready)
       = (Inr (PyGenerator [Inl (DriverError ''NotFound'')]), [])"
    by (simp add: mem_ready_eq mem_drivers_def unreachable_def)
  have b: "drv_load_once mem_drivers ?d ''a.txt'' (backend mem_ready)
       = (Inl (DriverError ''NotFound''), [])"
    by (simp add: mem_ready_eq mem_drivers_def unreachable_def)
  have c: "drv_exists mem_drivers ?d ''a.txt'' (backend mem_ready) = (Inr (PyBool False), [])"
    by (simp add: mem_ready_eq mem_drivers_def unreachable_def)
  have e: "drv_save mem_drivers ?d ''a.txt'' [104, 105] (backend mem_ready)
       = (Inr PyNone, [(''a.txt'', [104, 105])])"
    by (simp add: mem_ready_eq mem_drivers_def unreachable_def)
  have f: "drv_download mem_drivers ?d ''a.txt'' ''/tmp/a'' (backend mem_ready)
       = (Inl (DriverError ''NotFound''), [])"
    by (simp add: mem_ready_eq mem_drivers_def unreachable_def)
  have g: "drv_save mem_drivers ?d ''!a.txt'' [104, 105] (backend mem_ready)
       = (Inl (DriverError ''TransportError''), [])"
    by (simp add: mem_ready_eq mem_drivers_def unreachable_def)
  have 1: "fst (save mem_drivers ''!a.txt'' [104, 105] mem_ready) = Inl (DriverError ''TransportError'')"
    using load_dispatch [of mem_drivers "''!a.txt''" mem_ready ?d "[104, 105]" "''/tmp/a''"]
      mem_ready_runner g by simp
  from load_dispatch [of mem_drivers "''a.txt''" mem_ready ?d "[104, 105]" "''/tmp/a''"]
       mem_ready_runner a b c e f 1
  show ?thesis by simp
qed

subsection \<open>One driver instance\<close>

lemma init_app_Inr:
  assumes "init_app env st cfg s = (Inr r, s')"
  shows "(\<exists>c. get_storage_factory st cfg = Some c
            \<and> storage_runner s' = Some \<lparr>inst_class = c, inst_id = constructed s\<rparr>)
         \<and> constructed s' = Suc (constructed s)"
  using assms
  by (auto simp add: init_app_def split: option.splits prod.splits sum.splits)

lemma init_app_Inl:
  assumes "init_app env st cfg s = (Inl e, s')"
  shows "storage_runner s' = storage_runner s \<and> constructed s' = constructed s"
  using assms
  by (auto simp add: init_app_def split: option.splits prod.splits sum.splits)

lemma init_app_keeps_initialized:
  "storage_runner s \<noteq> None \<Longrightarrow> storage_runner (snd (init_app env st cfg s)) \<noteq> None"
  by (auto simp add: init_app_def split: option.splits prod.splits sum.splits)

lemma init_app_resolved:
  "get_storage_factory st cfg = Some c \<Longrightarrow>
   init_app env st cfg s =
     (case drv_init env c (backend s) of
        (Inl e, b') \<Rightarrow> (Inl e, s\<lparr>backend := b'\<rparr>)
      | (Inr u, b') \<Rightarrow>
          (Inr PyNone,
           s\<lparr>storage_runner := Some \<lparr>inst_class = c, inst_id = constructed s\<rparr>,
             backend := b',
             constructed := Suc (constructed s)\<rparr>))"
  by (simp add: init_app_def)

lemma init_app_Inr_constructor:
  assumes "init_app env st cfg s = (Inr r, s')"
  shows "\<exists>c. get_storage_factory st cfg = Some c
           \<and> fst (drv_init env c (backend s)) = Inr ()
           \<and> backend s' = snd (drv_init env c (backend s))
           \<and> storage_runner s' = Some \<lparr>inst_class = c, inst_id = constructed s\<rparr>
           \<and> constructed s' = Suc (constructed s)"
proof -
  obtain c where c: "get_storage_factory st cfg = Some c"
    using get_storage_factory_Some [of st cfg] by blast
  from assms show ?thesis
    unfolding init_app_resolved [OF c]
    by (intro exI [of _ c]) (auto simp add: c split: prod.splits sum.splits)
qed

lemma mem_init:
  "init_app mem_drivers spec_storage_types ''local'' (Storage_init []) = (Inr PyNone, mem_ready)"
  by (simp add: mem_ready_def init_app_def Storage_init_def get_storage_factory_def
      spec_storage_types_def mem_drivers_def)

text \<open>
  Claim C4. When \<open>init_app\<close> has returned on the facade as the import of the module left
  it, the constructor of the resolved class has been called once, on the medium as it
  was, and has returned; that one instance is retained and the number of instances
  constructed is one. After any sequence of facade operations the retained instance is
  still that one and the number still one, and one more operation, whichever it is, is
  the call of that instance's operation of the same name on the medium as it then is:
  it raises what that call raises, returns when it returns, and leaves the medium as that
  call leaves it, so that no constructor runs again.
\<close>

theorem single_driver:
  assumes "init_app env st cfg (Storage_init b) = (Inr r, s)"
  shows "\<exists>c. get_storage_factory st cfg = Some c
    \<and> fst (drv_init env c b) = Inr ()
    \<and> backend s = snd (drv_init env c b)
    \<and> storage_runner s = Some \<lparr>inst_class = c, inst_id = 0\<rparr>
    \<and> constructed s = 1
    \<and> storage_runner (run_ops env ops s) = Some \<lparr>inst_class = c, inst_id = 0\<rparr>
    \<and> constructed (run_ops env ops s) = 1
    \<and> fst (run_op env op (run_ops env ops s)) =
         (case fst (driver_op env \<lparr>inst_class = c, inst_id = 0\<rparr> op (backend (run_ops env ops s))) of
            Inl e \<Rightarrow> Inl e
          | Inr v \<Rightarrow> Inr (if returns_nothing op then PyNone else v))
    \<and> backend (snd (run_op env op (run_ops env ops s))) =
         snd (driver_op env \<lparr>inst_class = c, inst_id = 0\<rparr> op (backend (run_ops env ops s)))
    \<and> storage_runner (snd (run_op env op (run_ops env ops s))) = Some \<lparr>inst_class = c, inst_id = 0\<rparr>
    \<and> constructed (snd (run_op env op (run_ops env ops s))) = 1"
proof -
  from init_app_Inr_constructor [OF assms]
  obtain c where c: "get_storage_factory st cfg = Some c"
    and k: "fst (drv_init env c b) = Inr ()" "backend s = snd (drv_init env c b)"
    and r: "storage_runner s = Some \<lparr>inst_class = c, inst_id = 0\<rparr>"
    and n: "constructed s = 1"
    by (auto simp add: Storage_init_def)
  let ?s = "run_ops env ops s"
  have r': "storage_runner ?s = Some \<lparr>inst_class = c, inst_id = 0\<rparr>"
    using frame_run_ops [of env ops s] r by simp
  have n': "constructed ?s = 1"
    using frame_run_ops [of env ops s] n by simp
  have f: "fst (run_op env op ?s) =
         (case fst (driver_op env \<lparr>inst_class = c, inst_id = 0\<rparr> op (backend ?s)) of
            Inl e \<Rightarrow> Inl e
          | Inr v \<Rightarrow> Inr (if returns_nothing op then PyNone else v))"
    by (rule fst_run_op_Some [OF r'])
  have m: "backend (snd (run_op env op ?s)) =
         snd (driver_op env \<lparr>inst_class = c, inst_id = 0\<rparr> op (backend ?s))"
    by (rule backend_run_op_Some [OF r'])
  have r'': "storage_runner (snd (run_op env op ?s)) = Some \<lparr>inst_class = c, inst_id = 0\<rparr>"
    using frame_run_op(1) [of env op ?s] r' by simp
  have n'': "constructed (snd (run_op env op ?s)) = 1"
    using frame_run_op(2) [of env op ?s] n' by simp
  show ?thesis
    by (intro exI [of _ c] conjI c k r n r' n' f m r'' n'')
qed

theorem single_driver_witness:
  "init_app mem_drivers spec_storage_types ''local'' (Storage_init []) = (Inr PyNone, mem_ready)
   \<and> constructed mem_ready = 1
   \<and> storage_runner (run_ops mem_drivers
        [Save ''a.txt'' [104, 105], Load ''a.txt'' None, Exists ''b'', Delete ''b''] mem_ready)
       = Some \<lparr>inst_class = LocalFsStorage, inst_id = 0\<rparr>
   \<and> constructed (run_ops mem_drivers
        [Save ''a.txt'' [104, 105], Load ''a.txt'' None, Exists ''b'', Delete ''b''] mem_ready) = 1
   \<and> backend (run_ops mem_drivers
        [Save ''a.txt'' [104, 105], Load ''a.txt'' None, Exists ''b'', Delete ''b''] mem_ready)
       = [(''a.txt'', [104, 105])]
   \<and> fst (run_op mem_drivers (LoadOnce ''a.txt'') (run_ops mem_drivers
        [Save ''a.txt'' [104, 105], Load ''a.txt'' None, Exists ''b'', Delete ''b''] mem_ready))
       = Inr (PyBytes [104, 105])"
proof -
  let ?ops = "[Save ''a.txt'' [104, 105], Load ''a.txt'' None, Exists ''b'', Delete ''b'']"
  let ?s = "run_ops mem_drivers ?ops mem_ready"
  have g: "get_storage_factory spec_storage_types ''local'' = Some LocalFsStorage"
    by (simp add: get_storage_factory_def spec_storage_types_def)
  have b: "backend ?s = [(''a.txt'', [104, 105])]"
    by (simp add: mem_ready_eq facade_defs try_except_def stmt_def call_runner_def
        mem_drivers_def unreachable_def)
  have l: "driver_op mem_drivers \<lparr>inst_class = LocalFsStorage, inst_id = 0\<rparr> (LoadOnce ''a.txt'')
        [(''a.txt'', [104, 105])] = (Inr (PyBytes [104, 105]), [(''a.txt'', [104, 105])])"
    by (simp add: mem_drivers_def unreachable_def)
  from single_driver [OF mem_init, of ?ops "LoadOnce ''a.txt''"] g b l mem_init
  show ?thesis by auto
qed

subsection \<open>No value stands for a failure\<close>

text \<open>
  Claim C5. A facade operation returns a value only when a driver is retained and the
  driver's operation returned one; whenever the driver raises, or no driver is
  retained, the facade raises. \<open>exists\<close> returns \<open>False\<close> when the driver answers \<open>False\<close>
  (the key is missing), and raises the driver's exception when the driver's check fails.
\<close>

theorem no_sentinel:
  "(fst (run_op env op s) = Inr v \<longrightarrow>
      (\<exists>d w. storage_runner s = Some d
           \<and> fst (driver_op env d op (backend s)) = Inr w
           \<and> v = (if returns_nothing op then PyNone else w)))
   \<and> (storage_runner s = Some d \<and> fst (drv_exists env d filename (backend s)) = Inr (PyBool False)
        \<longrightarrow> fst (exists env filename s) = Inr (PyBool False))
   \<and> (storage_runner s = Some d \<and> fst (drv_exists env d filename (backend s)) = Inl e
        \<longrightarrow> fst (exists env filename s) = Inl e)"
proof (intro conjI impI)
  assume r: "fst (run_op env op s) = Inr v"
  show "\<exists>d w. storage_runner s = Some d
           \<and> fst (driver_op env d op (backend s)) = Inr w
           \<and> v = (if returns_nothing op then PyNone else w)"
  proof (cases "storage_runner s")
    case None
    from run_op_None [OF None, of env op] r show ?thesis by simp
  next
    case (Some d)
    from fst_run_op_Some [OF Some, of env op] r Some show ?thesis
      by (auto split: sum.splits)
  qed
next
  assume "storage_runner s = Some d \<and> fst (drv_exists env d filename (backend s)) = Inr (PyBool False)"
  then show "fst (exists env filename s) = Inr (PyBool False)"
    using forward_exists [of s d env filename] by simp
next
  assume "storage_runner s = Some d \<and> fst (drv_exists env d filename (backend s)) = Inl e"
  then show "fst (exists env filename s) = Inl e"
    using forward_exists [of s d env filename] by simp
qed

theorem no_sentinel_witness:
  "storage_runner mem_ready = Some \<lparr>inst_class = LocalFsStorage, inst_id = 0\<rparr>
   \<and> fst (run_op mem_drivers (Exists ''a.txt'') mem_ready) = Inr (PyBool False)
   \<and> fst (drv_exists mem_drivers \<lparr>inst_class = LocalFsStorage, inst_id = 0\<rparr> ''a.txt'' (backend mem_ready))
       = Inr (PyBool False)
   \<and> fst (exists mem_drivers ''a.txt'' mem_ready) = Inr (PyBool False)
   \<and> fst (drv_exists mem_drivers \<lparr>inst_class = LocalFsStorage, inst_id = 0\<rparr> ''!a.txt'' (backend mem_ready))
       = Inl (DriverError ''TransportError'')
   \<and> fst (exists mem_drivers ''!a.txt'' mem_ready) = Inl (DriverError ''TransportError'')"
proof -
  let ?d = "\<lparr>inst_class = LocalFsStorage, inst_id = 0\<rparr>"
  have a: "fst (drv_exists mem_drivers ?d ''a.txt'' (backend mem_ready)) = Inr (PyBool False)"
    by (simp add: mem_ready_eq mem_drivers_def unreachable_def)
  have b: "fst (drv_exists mem_drivers ?d ''!a.txt'' (backend mem_ready))
       = Inl (DriverError ''TransportError'')"
    by (simp add: mem_ready_eq mem_drivers_def unreachable_def)
  from no_sentinel [of mem_drivers "Exists ''a.txt''" mem_ready "PyBool False" ?d "''a.txt''"
         "DriverError ''TransportError''"]
       no_sentinel [of mem_drivers "Exists ''a.txt''" mem_ready "PyBool False" ?d "''!a.txt''"
         "DriverError ''TransportError''"]
       a b mem_ready_runner
  show ?thesis by simp
qed


subsection \<open>The transitions of the facade\<close>

lemma retained_is_constructed_Storage_init: "retained_is_constructed (Storage_init b)"
  by (simp add: retained_is_constructed_def Storage_init_def)

lemma retained_is_constructed_init_app:
  "retained_is_constructed s \<Longrightarrow> retained_is_constructed (snd (init_app env st cfg s))"
  by (auto simp add: retained_is_constructed_def init_app_def
      split: option.splits prod.splits sum.splits)

lemma retained_is_constructed_run_op:
  "retained_is_constructed s \<Longrightarrow> retained_is_constructed (snd (run_op env op s))"
  by (simp add: retained_is_constructed_def frame_run_op split: option.splits)

lemma init_app_constructor_returns:
  "get_storage_factory st cfg = Some c \<Longrightarrow> drv_init env c (backend s) = (Inr u, b') \<Longrightarrow>
   init_app env st cfg s =
     (Inr PyNone,
      s\<lparr>storage_runner := Some \<lparr>inst_class = c, inst_id = constructed s\<rparr>,
        backend := b',
        constructed := Suc (constructed s)\<rparr>)"
  by (simp add: init_app_resolved)

lemma init_app_constructor_raises:
  "get_storage_factory st cfg = Some c \<Longrightarrow> drv_init env c (backend s) = (Inl e, b') \<Longrightarrow>
   init_app env st cfg s = (Inl e, s\<lparr>backend := b'\<rparr>)"
  by (simp add: init_app_resolved)

lemma init_app_replaces:
  assumes "retained_is_constructed s" and "storage_runner s \<noteq> None"
    and "fst (init_app env st cfg s) = Inr r"
  shows "storage_runner (snd (init_app env st cfg s)) \<noteq> storage_runner s"
proof -
  obtain s' where i: "init_app env st cfg s = (Inr r, s')"
    using assms(3) by (cases "init_app env st cfg s") simp
  from init_app_Inr_constructor [OF i]
  have n: "\<exists>c. storage_runner s' = Some \<lparr>inst_class = c, inst_id = constructed s\<rparr>"
    by blast
  from assms(1,2) obtain d where d: "storage_runner s = Some d" "inst_id d < constructed s"
    by (auto simp add: retained_is_constructed_def)
  from n d have "storage_runner s' \<noteq> storage_runner s" by auto
  with i show ?thesis by simp
qed

text \<open>
  Claim C6, as stated, fails: \<open>init_app\<close> has no guard, and a second call on the
  initialized facade constructs a second instance and retains it in place of the first.
\<close>

theorem reinit_swaps_driver:
  "storage_runner mem_ready = Some \<lparr>inst_class = LocalFsStorage, inst_id = 0\<rparr>
   \<and> fst (init_app mem_drivers spec_storage_types ''local'' mem_ready) = Inr PyNone
   \<and> storage_runner (snd (init_app mem_drivers spec_storage_types ''local'' mem_ready))
       = Some \<lparr>inst_class = LocalFsStorage, inst_id = 1\<rparr>
   \<and> storage_runner (snd (init_app mem_drivers spec_storage_types ''local'' mem_ready))
       \<noteq> storage_runner mem_ready
   \<and> constructed (snd (init_app mem_drivers spec_storage_types ''local'' mem_ready)) = 2"
  by (simp add: mem_ready_eq init_app_def get_storage_factory_def
      spec_storage_types_def mem_drivers_def)

text \<open>
  Claim C6, amended. \<open>init_app\<close> resolves the configured identifier through
  \<open>get_storage_factory\<close>, which always yields a class, and calls that class once on the
  medium as it is. When the constructor returns, \<open>init_app\<close> returns and retains the newly
  constructed instance, also when a driver was retained already; when the constructor
  raises, \<open>init_app\<close> raises that exception and the retained driver, or its absence, is
  as it was. No call of \<open>init_app\<close> and no facade operation takes an initialized facade
  back to uninitialized, and no facade operation changes the retained driver or
  constructs one. In every state the process can reach (the retained instance is one of
  those constructed so far, which holds at import and is kept by every call), a call of
  \<open>init_app\<close> that returns on an initialized facade retains an instance different from
  the one retained before.
\<close>

theorem init_app_transitions:
  "(\<exists>c. get_storage_factory st cfg = Some c)
   \<and> (get_storage_factory st cfg = Some c \<and> drv_init env c (backend s) = (Inr u, b') \<longrightarrow>
        init_app env st cfg s =
          (Inr PyNone,
           s\<lparr>storage_runner := Some \<lparr>inst_class = c, inst_id = constructed s\<rparr>,
             backend := b',
             constructed := Suc (constructed s)\<rparr>))
   \<and> (get_storage_factory st cfg = Some c \<and> drv_init env c (backend s) = (Inl e, b') \<longrightarrow>
        init_app env st cfg s = (Inl e, s\<lparr>backend := b'\<rparr>)
        \<and> storage_runner (snd (init_app env st cfg s)) = storage_runner s
        \<and> constructed (snd (init_app env st cfg s)) = constructed s)
   \<and> (init_app env st cfg s = (Inr r, s') \<longrightarrow>
        (\<exists>c. get_storage_factory st cfg = Some c
            \<and> fst (drv_init env c (backend s)) = Inr ()
            \<and> backend s' = snd (drv_init env c (backend s))
            \<and> storage_runner s' = Some \<lparr>inst_class = c, inst_id = constructed s\<rparr>
            \<and> constructed s' = Suc (constructed s)))
   \<and> (init_app env st cfg s = (Inl e, s') \<longrightarrow>
        storage_runner s' = storage_runner s \<and> constructed s' = constructed s)
   \<and> (storage_runner s \<noteq> None \<longrightarrow> storage_runner (snd (init_app env st cfg s)) \<noteq> None)
   \<and> storage_runner (snd (run_op env op s)) = storage_runner s
   \<and> constructed (snd (run_op env op s)) = constructed s
   \<and> retained_is_constructed (Storage_init (backend s))
   \<and> (retained_is_constructed s \<longrightarrow>
        retained_is_constructed (snd (init_app env st cfg s))
        \<and> retained_is_constructed (snd (run_op env op s)))
   \<and> (retained_is_constructed s \<and> storage_runner s \<noteq> None
        \<and> fst (init_app env st cfg s) = Inr r \<longrightarrow>
        storage_runner (snd (init_app env st cfg s)) \<noteq> storage_runner s)"
proof (intro conjI impI)
  show "\<exists>c. get_storage_factory st cfg = Some c"
    by (rule get_storage_factory_Some)
next
  assume "get_storage_factory st cfg = Some c \<and> drv_init env c (backend s) = (Inr u, b')"
  then show "init_app env st cfg s =
          (Inr PyNone,
           s\<lparr>storage_runner := Some \<lparr>inst_class = c, inst_id = constructed s\<rparr>,
             backend := b',
             constructed := Suc (constructed s)\<rparr>)"
    by (simp add: init_app_constructor_returns)
next
  assume a: "get_storage_factory st cfg = Some c \<and> drv_init env c (backend s) = (Inl e, b')"
  then show i: "init_app env st cfg s = (Inl e, s\<lparr>backend := b'\<rparr>)"
    by (simp add: init_app_constructor_raises)
  show "storage_runner (snd (init_app env st cfg s)) = storage_runner s"
    by (simp add: i)
  show "constructed (snd (init_app env st cfg s)) = constructed s"
    by (simp add: i)
next
  assume "init_app env st cfg s = (Inr r, s')"
  then show "\<exists>c. get_storage_factory st cfg = Some c
            \<and> fst (drv_init env c (backend s)) = Inr ()
            \<and> backend s' = snd (drv_init env c (backend s))
            \<and> storage_runner s' = Some \<lparr>inst_class = c, inst_id = constructed s\<rparr>
            \<and> constructed s' = Suc (constructed s)"
    by (rule init_app_Inr_constructor)
next
  assume i: "init_app env st cfg s = (Inl e, s')"
  show "storage_runner s' = storage_runner s"
    using init_app_Inl [OF i] by simp
  show "constructed s' = constructed s"
    using init_app_Inl [OF i] by simp
next
  assume "storage_runner s \<noteq> None"
  then show "storage_runner (snd (init_app env st cfg s)) \<noteq> None"
    by (rule init_app_keeps_initialized)
next
  show "storage_runner (snd (run_op env op s)) = storage_runner s"
    by (rule frame_run_op)
  show "constructed (snd (run_op env op s)) = constructed s"
    by (rule frame_run_op)
  show "retained_is_constructed (Storage_init (backend s))"
    by (rule retained_is_constructed_Storage_init)
next
  assume "retained_is_constructed s"
  then show "retained_is_constructed (snd (init_app env st cfg s))"
    by (rule retained_is_constructed_init_app)
next
  assume "retained_is_constructed s"
  then show "retained_is_constructed (snd (run_op env op s))"
    by (rule retained_is_constructed_run_op)
next
  assume "retained_is_constructed s \<and> storage_runner s \<noteq> None
        \<and> fst (init_app env st cfg s) = Inr r"
  then show "storage_runner (snd (init_app env st cfg s)) \<noteq> storage_runner s"
    using init_app_replaces [of s env st cfg r] by simp
qed

theorem init_app_transitions_witness:
  "get_storage_factory spec_storage_types ''local'' = Some LocalFsStorage
   \<and> drv_init mem_drivers LocalFsStorage (backend (Storage_init [])) = (Inr (), [])
   \<and> init_app mem_drivers spec_storage_types ''local'' (Storage_init []) = (Inr PyNone, mem_ready)
   \<and> storage_runner (Storage_init ([] :: (string \<times> bytes) list)) = None
   \<and> storage_runner mem_ready = Some \<lparr>inst_class = LocalFsStorage, inst_id = 0\<rparr>
   \<and> constructed mem_ready = 1
   \<and> retained_is_constructed mem_ready
   \<and> drv_init unconfigured_drivers LocalFsStorage (backend mem_ready)
       = (Inl (DriverError ''ConfigurationError''), [])
   \<and> fst (init_app unconfigured_drivers spec_storage_types ''local'' mem_ready)
       = Inl (DriverError ''ConfigurationError'')
   \<and> storage_runner (snd (init_app unconfigured_drivers spec_storage_types ''local'' mem_ready))
       = storage_runner mem_ready
   \<and> fst (init_app mem_drivers spec_storage_types ''local'' mem_ready) = Inr PyNone
   \<and> storage_runner (snd (init_app mem_drivers spec_storage_types ''local'' mem_ready))
       \<noteq> storage_runner mem_ready
   \<and> storage_runner (snd (init_app mem_drivers spec_storage_types ''local'' mem_ready)) \<noteq> None
   \<and> storage_runner (snd (run_op mem_drivers (Delete ''a.txt'') mem_ready)) = storage_runner mem_ready"
proof -
  let ?E = "DriverError ''ConfigurationError''"
  have g: "get_storage_factory spec_storage_types ''local'' = Some LocalFsStorage"
    by (simp add: get_storage_factory_def spec_storage_types_def)
  have k0: "drv_init mem_drivers LocalFsStorage (backend (Storage_init [])) = (Inr (), [])"
    by (simp add: mem_drivers_def Storage_init_def)
  have k1: "drv_init mem_drivers LocalFsStorage (backend mem_ready) = (Inr (), [])"
    by (simp add: mem_drivers_def mem_ready_eq)
  have k2: "drv_init unconfigured_drivers LocalFsStorage (backend mem_ready) = (Inl ?E, [])"
    by (simp add: unconfigured_drivers_def mem_drivers_def mem_ready_eq)
  have n: "storage_runner (Storage_init ([] :: (string \<times> bytes) list)) = None"
    by (simp add: Storage_init_def)
  have c1: "constructed mem_ready = 1"
    by (simp add: mem_ready_eq)
  have w: "retained_is_constructed mem_ready"
    by (simp add: retained_is_constructed_def mem_ready_eq)
  have ne: "storage_runner mem_ready \<noteq> None"
    by (simp add: mem_ready_runner)
  note t1 = init_app_transitions [of spec_storage_types "''local''" LocalFsStorage mem_drivers
      mem_ready "()" "[]" ?E PyNone mem_ready "Delete ''a.txt''"]
  note t2 = init_app_transitions [of spec_storage_types "''local''" LocalFsStorage
      unconfigured_drivers mem_ready "()" "[]" ?E PyNone mem_ready "Delete ''a.txt''"]
  have ok: "fst (init_app mem_drivers spec_storage_types ''local'' mem_ready) = Inr PyNone"
    using t1 g k1 by simp
  have swap: "storage_runner (snd (init_app mem_drivers spec_storage_types ''local'' mem_ready))
       \<noteq> storage_runner mem_ready"
    using t1 w ne ok by blast
  have keep: "storage_runner (snd (init_app mem_drivers spec_storage_types ''local'' mem_ready)) \<noteq> None"
    using t1 ne by blast
  have op: "storage_runner (snd (run_op mem_drivers (Delete ''a.txt'') mem_ready)) = storage_runner mem_ready"
    using t1 by blast
  have fail: "fst (init_app unconfigured_drivers spec_storage_types ''local'' mem_ready) = Inl ?E"
    using t2 g k2 by simp
  have same: "storage_runner (snd (init_app unconfigured_drivers spec_storage_types ''local'' mem_ready))
       = storage_runner mem_ready"
    using t2 g k2 by blast
  show ?thesis
    by (intro conjI g k0 mem_init n mem_ready_runner c1 w k2 fail same ok swap keep op)
qed

subsection \<open>Payloads pass through\<close>

text \<open>
  Claim C7. With a driver retained, \<open>save\<close> hands the file name and the payload it was
  given to the driver's \<open>save\<close> (the medium afterwards is what that call leaves, and a
  failure of it is raised), and \<open>load_once\<close> returns exactly what the driver's
  \<open>load_once\<close> returns, in particular the same bytes.
\<close>

theorem payload_pass_through:
  assumes "storage_runner s = Some d"
  shows "backend (snd (save env filename data s)) = snd (drv_save env d filename data (backend s))
    \<and> (fst (drv_save env d filename data (backend s)) = Inl e \<longrightarrow>
          fst (save env filename data s) = Inl e)
    \<and> fst (load_once env filename s) = fst (drv_load_once env d filename (backend s))
    \<and> backend (snd (load_once env filename s)) = snd (drv_load_once env d filename (backend s))
    \<and> (fst (drv_load_once env d filename (backend s)) = Inr (PyBytes payload) \<longrightarrow>
          fst (load_once env filename s) = Inr (PyBytes payload))"
  using forward_save [OF assms, of env filename data] forward_load_once [OF assms, of env filename]
    fst_run_op_Some [OF assms, of env "Save filename data"]
  by simp

theorem payload_pass_through_witness:
  "storage_runner mem_ready = Some \<lparr>inst_class = LocalFsStorage, inst_id = 0\<rparr>
   \<and> backend (snd (save mem_drivers ''a.txt'' [104, 101, 108, 108, 111] mem_ready))
       = [(''a.txt'', [104, 101, 108, 108, 111])]
   \<and> storage_runner (snd (save mem_drivers ''a.txt'' [104, 101, 108, 108, 111] mem_ready))
       = Some \<lparr>inst_class = LocalFsStorage, inst_id = 0\<rparr>
   \<and> fst (load_once mem_drivers ''a.txt''
        (snd (save mem_drivers ''a.txt'' [104, 101, 108, 108, 111] mem_ready)))
       = Inr (PyBytes [104, 101, 108, 108, 111])"
proof -
  let ?d = "\<lparr>inst_class = LocalFsStorage, inst_id = 0\<rparr>"
  let ?hello = "[104, 101, 108, 108, 111] :: bytes"
  let ?s1 = "snd (save mem_drivers ''a.txt'' ?hello mem_ready)"
  have r1: "storage_runner ?s1 = Some ?d"
    using frame_run_op(1) [of mem_drivers "Save ''a.txt'' ?hello" mem_ready] mem_ready_runner
    by simp
  have a: "drv_save mem_drivers ?d ''a.txt'' ?hello (backend mem_ready)
       = (Inr PyNone, [(''a.txt'', ?hello)])"
    by (simp add: mem_ready_eq mem_drivers_def unreachable_def)
  from payload_pass_through [OF mem_ready_runner, of mem_drivers "''a.txt''" ?hello
         "DriverError ''x''" ?hello] a
  have b1: "backend ?s1 = [(''a.txt'', ?hello)]" by simp
  have c: "drv_load_once mem_drivers ?d ''a.txt'' [(''a.txt'', ?hello)]
       = (Inr (PyBytes ?hello), [(''a.txt'', ?hello)])"
    by (simp add: mem_drivers_def unreachable_def)
  from payload_pass_through [OF r1, of mem_drivers "''a.txt''" ?hello "DriverError ''x''" ?hello]
       b1 c
  have "fst (load_once mem_drivers ''a.txt'' ?s1) = Inr (PyBytes ?hello)" by simp
  with b1 r1 mem_ready_runner show ?thesis by simp
qed


subsection \<open>Timing and the outcome\<close>

lemma timeit_func_raises:
  "time_time env (backend s) = Inr t0 \<Longrightarrow> fst (func s) = Inl e \<Longrightarrow>
   timeit env func_name func s = func s"
  by (cases "func s") (simp add: timeit_def)

lemma timeit_prints:
  "time_time env (backend s) = Inr t0 \<Longrightarrow> func s = (Inr v, s') \<Longrightarrow>
   time_time env (backend s') = Inr t1 \<Longrightarrow> print_raises env (backend s') = None \<Longrightarrow>
   timeit env func_name func s = (Inr v, s'\<lparr>printed := printed s' @ [(func_name, t1 - t0)]\<rparr>)"
  by (simp add: timeit_def)

lemma timeit_print_raises:
  "time_time env (backend s) = Inr t0 \<Longrightarrow> func s = (Inr v, s') \<Longrightarrow>
   time_time env (backend s') = Inr t1 \<Longrightarrow> print_raises env (backend s') = Some e \<Longrightarrow>
   timeit env func_name func s = (Inl e, s')"
  by (simp add: timeit_def)

lemma histogram_timeit:
  "REQUEST_LATENCY (snd (timeit env func_name (run_op env op) s)) = REQUEST_LATENCY s"
proof (cases "time_time env (backend s)")
  case (Inl e)
  then show ?thesis by (simp add: timeit_def)
next
  case (Inr t0)
  obtain r s' where f: "run_op env op s = (r, s')" by (cases "run_op env op s")
  have h: "REQUEST_LATENCY s' = REQUEST_LATENCY s"
    using histogram_run_op [of env op s] f by simp
  show ?thesis
    by (simp add: timeit_def Inr f h Let_def split: sum.splits option.splits)
qed

lemma closed_stdout_exists:
  "exists closed_stdout_drivers ''a.txt'' mem_ready = (Inr (PyBool False), mem_ready)"
  by (simp add: exists_def try_except_def call_runner_def mem_ready_eq
      closed_stdout_drivers_def mem_drivers_def unreachable_def)

text \<open>
  Claim C8, as stated, fails where an operation is instrumented: \<open>timeit\<close> prints after
  the wrapped function has returned and does not guard the \<open>print\<close>, so in a process
  whose standard output cannot be written the wrapped \<open>exists\<close> raises although the
  operation itself has returned \<open>False\<close>.
\<close>

theorem timeit_print_failure:
  "fst (run_op closed_stdout_drivers (Exists ''a.txt'') mem_ready) = Inr (PyBool False)
   \<and> fst (timeit closed_stdout_drivers ''exists''
            (run_op closed_stdout_drivers (Exists ''a.txt'')) mem_ready)
       = Inl (OSError ''Broken pipe'')
   \<and> fst (timeit closed_stdout_drivers ''exists''
            (run_op closed_stdout_drivers (Exists ''a.txt'')) mem_ready)
       \<noteq> fst (run_op closed_stdout_drivers (Exists ''a.txt'') mem_ready)"
proof -
  have t: "time_time closed_stdout_drivers (backend mem_ready) = Inr 0"
    by (simp add: closed_stdout_drivers_def mem_drivers_def mem_ready_eq)
  have p: "print_raises closed_stdout_drivers (backend mem_ready) = Some (OSError ''Broken pipe'')"
    by (simp add: closed_stdout_drivers_def mem_drivers_def mem_ready_eq)
  have r: "run_op closed_stdout_drivers (Exists ''a.txt'') mem_ready = (Inr (PyBool False), mem_ready)"
    by (simp add: closed_stdout_exists)
  have w: "timeit closed_stdout_drivers ''exists''
        (run_op closed_stdout_drivers (Exists ''a.txt'')) mem_ready
       = (Inl (OSError ''Broken pipe''), mem_ready)"
    by (rule timeit_print_raises
        [where func = "run_op closed_stdout_drivers (Exists ''a.txt'')" and s = mem_ready,
         OF t r t p])
  show ?thesis
    unfolding w r by simp
qed

text \<open>
  Claim C8, amended. The source instruments no facade operation: none is wrapped in
  \<open>timeit\<close>, and neither the operations nor \<open>timeit\<close> report anything to the histogram. So,
  with a driver retained, what an operation returns or raises and what it leaves on the
  medium are those of the call of the driver's operation. Were an operation wrapped in
  \<open>timeit\<close>: once the first clock read has succeeded, a failure of the operation is
  raised unchanged with the state the operation left; a result of the operation is
  returned unchanged, with one more line printed and nothing else changed, when the
  second clock read and the \<open>print\<close> succeed; and when the \<open>print\<close> raises, the wrapper
  raises that exception in place of the operation's result.
\<close>

theorem timeit_transparent:
  "REQUEST_LATENCY (snd (run_op env op s)) = REQUEST_LATENCY s
   \<and> REQUEST_LATENCY (snd (timeit env func_name (run_op env op) s)) = REQUEST_LATENCY s
   \<and> (storage_runner s = Some d \<longrightarrow>
        fst (run_op env op s) =
          (case fst (driver_op env d op (backend s)) of
             Inl e \<Rightarrow> Inl e
           | Inr v \<Rightarrow> Inr (if returns_nothing op then PyNone else v))
      \<and> backend (snd (run_op env op s)) = snd (driver_op env d op (backend s)))
   \<and> (time_time env (backend s) = Inr t0 \<and> fst (run_op env op s) = Inl e \<longrightarrow>
        timeit env func_name (run_op env op) s = run_op env op s)
   \<and> (time_time env (backend s) = Inr t0 \<and> run_op env op s = (Inr v, s')
        \<and> time_time env (backend s') = Inr t1 \<and> print_raises env (backend s') = None \<longrightarrow>
        timeit env func_name (run_op env op) s =
          (Inr v, s'\<lparr>printed := printed s' @ [(func_name, t1 - t0)]\<rparr>))
   \<and> (time_time env (backend s) = Inr t0 \<and> run_op env op s = (Inr v, s')
        \<and> time_time env (backend s') = Inr t1 \<and> print_raises env (backend s') = Some e' \<longrightarrow>
        timeit env func_name (run_op env op) s = (Inl e', s'))"
proof (intro conjI impI)
  show "REQUEST_LATENCY (snd (run_op env op s)) = REQUEST_LATENCY s"
    by (rule histogram_run_op)
  show "REQUEST_LATENCY (snd (timeit env func_name (run_op env op) s)) = REQUEST_LATENCY s"
    by (rule histogram_timeit)
next
  assume r: "storage_runner s = Some d"
  show "fst (run_op env op s) =
          (case fst (driver_op env d op (backend s)) of
             Inl e \<Rightarrow> Inl e
           | Inr v \<Rightarrow> Inr (if returns_nothing op then PyNone else v))"
    by (rule fst_run_op_Some [OF r])
  show "backend (snd (run_op env op s)) = snd (driver_op env d op (backend s))"
    by (rule backend_run_op_Some [OF r])
next
  assume "time_time env (backend s) = Inr t0 \<and> fst (run_op env op s) = Inl e"
  then show "timeit env func_name (run_op env op) s = run_op env op s"
    using timeit_func_raises [of env s t0 "run_op env op" e func_name] by simp
next
  assume "time_time env (backend s) = Inr t0 \<and> run_op env op s = (Inr v, s')
        \<and> time_time env (backend s') = Inr t1 \<and> print_raises env (backend s') = None"
  then show "timeit env func_name (run_op env op) s =
          (Inr v, s'\<lparr>printed := printed s' @ [(func_name, t1 - t0)]\<rparr>)"
    using timeit_prints [of env s t0 "run_op env op" v s' t1 func_name] by simp
next
  assume "time_time env (backend s) = Inr t0 \<and> run_op env op s = (Inr v, s')
        \<and> time_time env (backend s') = Inr t1 \<and> print_raises env (backend s') = Some e'"
  then show "timeit env func_name (run_op env op) s = (Inl e', s')"
    using timeit_print_raises [of env s t0 "run_op env op" v s' t1 e' func_name] by simp
qed

lemma mem_exists:
  "exists mem_drivers ''a.txt'' mem_ready = (Inr (PyBool False), mem_ready)"
  by (simp add: exists_def try_except_def call_runner_def mem_ready_eq
      mem_drivers_def unreachable_def)

lemma mem_load_once:
  "fst (load_once mem_drivers ''a.txt'' mem_ready) = Inl (DriverError ''NotFound'')"
  by (simp add: load_once_def try_except_def call_runner_def mem_ready_eq
      mem_drivers_def unreachable_def)

theorem timeit_transparent_witness:
  "storage_runner mem_ready = Some \<lparr>inst_class = LocalFsStorage, inst_id = 0\<rparr>
   \<and> time_time mem_drivers (backend mem_ready) = Inr 0
   \<and> print_raises mem_drivers (backend mem_ready) = None
   \<and> run_op mem_drivers (Exists ''a.txt'') mem_ready = (Inr (PyBool False), mem_ready)
   \<and> timeit mem_drivers ''exists'' (run_op mem_drivers (Exists ''a.txt'')) mem_ready
       = (Inr (PyBool False), mem_ready\<lparr>printed := [(''exists'', 0)]\<rparr>)
   \<and> fst (run_op mem_drivers (LoadOnce ''a.txt'') mem_ready) = Inl (DriverError ''NotFound'')
   \<and> timeit mem_drivers ''load_once'' (run_op mem_drivers (LoadOnce ''a.txt'')) mem_ready
       = run_op mem_drivers (LoadOnce ''a.txt'') mem_ready
   \<and> print_raises closed_stdout_drivers (backend mem_ready) = Some (OSError ''Broken pipe'')
   \<and> timeit closed_stdout_drivers ''exists''
        (run_op closed_stdout_drivers (Exists ''a.txt'')) mem_ready
       = (Inl (OSError ''Broken pipe''), mem_ready)"
proof -
  let ?d = "\<lparr>inst_class = LocalFsStorage, inst_id = 0\<rparr>"
  have t: "time_time mem_drivers (backend mem_ready) = Inr 0"
    by (simp add: mem_drivers_def mem_ready_eq)
  have p: "print_raises mem_drivers (backend mem_ready) = None"
    by (simp add: mem_drivers_def mem_ready_eq)
  have t': "time_time closed_stdout_drivers (backend mem_ready) = Inr 0"
    by (simp add: closed_stdout_drivers_def mem_drivers_def mem_ready_eq)
  have p': "print_raises closed_stdout_drivers (backend mem_ready) = Some (OSError ''Broken pipe'')"
    by (simp add: closed_stdout_drivers_def mem_drivers_def mem_ready_eq)
  have k: "printed mem_ready = []"
    by (simp add: mem_ready_eq)
  have 1: "timeit mem_drivers ''exists'' (run_op mem_drivers (Exists ''a.txt'')) mem_ready
       = (Inr (PyBool False), mem_ready\<lparr>printed := [(''exists'', 0)]\<rparr>)"
    using timeit_transparent [of mem_drivers "Exists ''a.txt''" mem_ready "''exists''" ?d
        0 "DriverError ''NotFound''" "PyBool False" mem_ready 0 "OSError ''Broken pipe''"]
      t p k mem_exists by simp
  have 2: "timeit mem_drivers ''load_once'' (run_op mem_drivers (LoadOnce ''a.txt'')) mem_ready
       = run_op mem_drivers (LoadOnce ''a.txt'') mem_ready"
    using timeit_transparent [of mem_drivers "LoadOnce ''a.txt''" mem_ready "''load_once''" ?d
        0 "DriverError ''NotFound''" "PyBool False" mem_ready 0 "OSError ''Broken pipe''"]
      t mem_load_once by simp
  have 3: "timeit closed_stdout_drivers ''exists''
        (run_op closed_stdout_drivers (Exists ''a.txt'')) mem_ready
       = (Inl (OSError ''Broken pipe''), mem_ready)"
    using timeit_transparent [of closed_stdout_drivers "Exists ''a.txt''" mem_ready "''exists''" ?d
        0 "DriverError ''NotFound''" "PyBool False" mem_ready 0 "OSError ''Broken pipe''"]
      t' p' closed_stdout_exists by simp
  show ?thesis
    using mem_ready_runner t p mem_exists 1 mem_load_once 2 p' 3 by simp
qed

subsection \<open>Operations before initialization\<close>

text \<open>
  Claim C9. While \<open>storage_runner\<close> is \<open>None\<close>, every facade operation raises
  (an AttributeError), leaves the medium untouched, constructs nothing and leaves
  \<open>storage_runner\<close> at \<open>None\<close>.
\<close>

theorem uninitialized_raises:
  assumes "storage_runner s = None"
  shows "(\<exists>m. fst (run_op env op s) = Inl (AttributeError m))
    \<and> backend (snd (run_op env op s)) = backend s
    \<and> storage_runner (snd (run_op env op s)) = None
    \<and> constructed (snd (run_op env op s)) = constructed s"
  using run_op_None [OF assms, of env op] assms
  by (simp add: frame_run_op)

theorem uninitialized_raises_witness:
  "storage_runner (Storage_init [(''a.txt'', [104, 105 :: 8 word])]) = None
   \<and> fst (run_op mem_drivers (Save ''b.txt'' [1]) (Storage_init [(''a.txt'', [104, 105])]))
       = Inl (AttributeError ''save'')
   \<and> fst (run_op mem_drivers (Load ''a.txt'' (Some True)) (Storage_init [(''a.txt'', [104, 105])]))
       = Inl (AttributeError ''load_stream'')
   \<and> backend (snd (run_op mem_drivers (Delete ''a.txt'') (Storage_init [(''a.txt'', [104, 105])])))
       = [(''a.txt'', [104, 105])]
   \<and> storage_runner (snd (run_op mem_drivers (Delete ''a.txt'') (Storage_init [(''a.txt'', [104, 105])])))
       = None"
proof -
  let ?s = "Storage_init [(''a.txt'', [104, 105 :: 8 word])]"
  have n: "storage_runner ?s = None" by (simp add: Storage_init_def)
  have a: "fst (run_op mem_drivers (Save ''b.txt'' [1]) ?s) = Inl (AttributeError ''save'')"
    by (simp add: save_def fst_try_except fst_stmt call_runner_None [OF n])
  have b: "fst (run_op mem_drivers (Load ''a.txt'' (Some True)) ?s) = Inl (AttributeError ''load_stream'')"
    by (simp add: load_def load_stream_def fst_try_except call_runner_None [OF n])
  from uninitialized_raises [OF n, of mem_drivers "Delete ''a.txt''"] n a b
  show ?thesis by (simp add: Storage_init_def)
qed

subsection \<open>The stream is handed over unread\<close>

lemma load_stream_Some_eq:
  assumes "storage_runner s = Some d"
  shows "load_stream env filename s =
     (case drv_load_stream env d filename (backend s) of
        (Inl e, b') \<Rightarrow>
          (Inl e, if is_Exception e
                  then s\<lparr>backend := b', logged := logged s @ [(''Failed to load_stream file: %s'', e)]\<rparr>
                  else s\<lparr>backend := b'\<rparr>)
      | (Inr v, b') \<Rightarrow> (Inr v, s\<lparr>backend := b'\<rparr>))"
  by (simp add: load_stream_def try_except_def call_runner_Some [OF assms] split: prod.splits sum.splits)

text \<open>
  Claim C10. With a driver retained, \<open>load_stream\<close> returns the object the driver's
  \<open>load_stream\<close> returned, as it is, and logs nothing; a consumer that iterates the
  generator gets what the generator does, and when its first step raises, the consumer
  gets that exception while the log stays as it was. Only an exception raised by the
  driver's call itself is logged by the facade and raised again.
\<close>

theorem load_stream_lazy:
  assumes "storage_runner s = Some d"
  shows "(drv_load_stream env d filename (backend s) = (Inr v, b') \<longrightarrow>
            load_stream env filename s = (Inr v, s\<lparr>backend := b'\<rparr>))
    \<and> (drv_load_stream env d filename (backend s) = (Inr (PyGenerator g), b') \<longrightarrow>
            consume_stream env filename s = (drain g, s\<lparr>backend := b'\<rparr>)
          \<and> logged (snd (consume_stream env filename s)) = logged s)
    \<and> (drv_load_stream env d filename (backend s) = (Inr (PyGenerator (Inl e # g)), b') \<longrightarrow>
            fst (load_stream env filename s) = Inr (PyGenerator (Inl e # g))
          \<and> fst (consume_stream env filename s) = Inl e
          \<and> logged (snd (consume_stream env filename s)) = logged s)
    \<and> (drv_load_stream env d filename (backend s) = (Inl e, b') \<and> is_Exception e \<longrightarrow>
            load_stream env filename s =
              (Inl e, s\<lparr>backend := b', logged := logged s @ [(''Failed to load_stream file: %s'', e)]\<rparr>))"
  by (simp add: load_stream_Some_eq [OF assms] consume_stream_def)

theorem load_stream_lazy_witness:
  "storage_runner mem_ready = Some \<lparr>inst_class = LocalFsStorage, inst_id = 0\<rparr>
   \<and> load_stream mem_drivers ''a.txt'' mem_ready
       = (Inr (PyGenerator [Inl (DriverError ''NotFound'')]), mem_ready)
   \<and> consume_stream mem_drivers ''a.txt'' mem_ready = (Inl (DriverError ''NotFound''), mem_ready)
   \<and> logged mem_ready = []
   \<and> logged (snd (load_stream mem_drivers ''!a.txt'' mem_ready))
       = [(''Failed to load_stream file: %s'', DriverError ''TransportError'')]"
proof -
  let ?d = "\<lparr>inst_class = LocalFsStorage, inst_id = 0\<rparr>"
  have a: "drv_load_stream mem_drivers ?d ''a.txt'' (backend mem_ready)
       = (Inr (PyGenerator [Inl (DriverError ''NotFound'')]), [])"
    by (simp add: mem_ready_eq mem_drivers_def unreachable_def)
  have b: "drv_load_stream mem_drivers ?d ''!a.txt'' (backend mem_ready)
       = (Inl (DriverError ''TransportError''), [])"
    by (simp add: mem_ready_eq mem_drivers_def unreachable_def)
  have k: "mem_ready\<lparr>backend := []\<rparr> = mem_ready" "logged mem_ready = []"
    by (simp_all add: mem_ready_eq)
  from load_stream_lazy [OF mem_ready_runner, of mem_drivers "''a.txt''"
         "PyGenerator [Inl (DriverError ''NotFound'')]" "[]" "[Inl (DriverError ''NotFound'')]"
         "DriverError ''NotFound''"]
       load_stream_lazy [OF mem_ready_runner, of mem_drivers "''!a.txt''"
         "PyNone" "[]" "[]" "DriverError ''TransportError''"]
       a b k mem_ready_runner
  show ?thesis by simp
qed

end
